theory Spec2Isabelle
  imports Complex_Main "HOL-Library.AList" "HOL-Library.Char_ord" "HOL-Library.List_Lexorder"
    "HOL-Library.Log_Nat"
begin

text \<open>
  A model of the notebook \<open>notebooks/analysis/price_analysis_monitors.ipynb\<close>, run as a
  script: it loads the cleaned monitor listings of two platforms, keeps the products that
  are listed on both, and draws one chart of daily mean prices for each of them.  The
  functions \<open>load_cleaned_data\<close>, \<open>filter_products_by_platforms\<close> and
  \<open>analyze_price_differences\<close> and the main block keep their names; a pandas table is a
  list of rows, an exception is a value of type \<open>exn\<close>, and the log is a list of entries.
\<close>

section \<open>Text\<close>

text \<open>
  A Python \<open>str\<close> is modelled as a \<open>string\<close> whose characters are the code points below
  256.  The character classes are those of Python 3 on that range: \<open>str.isspace\<close> (used by
  \<open>str.strip\<close> and by \<open>\s\<close> in \<open>re\<close>) and \<open>str.isalnum\<close> or underscore (\<open>\w\<close> in \<open>re\<close>).
\<close>

definition code_point :: "char \<Rightarrow> nat" where
  "code_point c = of_char c"

definition is_space :: "char \<Rightarrow> bool" where
  "is_space c = (let n = code_point c in
     (9 \<le> n \<and> n \<le> 13) \<or> (28 \<le> n \<and> n \<le> 32) \<or> n = 133 \<or> n = 160)"

definition is_word :: "char \<Rightarrow> bool" where
  "is_word c = (let n = code_point c in
     (48 \<le> n \<and> n \<le> 57) \<or> (65 \<le> n \<and> n \<le> 90) \<or> n = 95 \<or> (97 \<le> n \<and> n \<le> 122) \<or>
     n = 170 \<or> n = 178 \<or> n = 179 \<or> n = 181 \<or> n = 185 \<or> n = 186 \<or>
     (188 \<le> n \<and> n \<le> 190) \<or> (192 \<le> n \<and> n \<le> 214) \<or> (216 \<le> n \<and> n \<le> 246) \<or>
     (248 \<le> n \<and> n \<le> 255))"

definition lower_char :: "char \<Rightarrow> char" where
  "lower_char c = (let n = code_point c in
     if (65 \<le> n \<and> n \<le> 90) \<or> (192 \<le> n \<and> n \<le> 214) \<or> (216 \<le> n \<and> n \<le> 222)
     then char_of (n + 32) else c)"

text \<open>\<open>s.replace(a, b)\<close> for one-character \<open>a\<close> and \<open>b\<close>.\<close>

definition replace_char :: "char \<Rightarrow> char \<Rightarrow> string \<Rightarrow> string" where
  "replace_char a b s = map (\<lambda>c. if c = a then b else c) s"

text \<open>\<open>s.strip()\<close>: leading and trailing whitespace removed.\<close>

definition strip :: "string \<Rightarrow> string" where
  "strip s = rev (dropWhile is_space (rev (dropWhile is_space s)))"

text \<open>\<open>s.lower()\<close>.\<close>

definition lower :: "string \<Rightarrow> string" where
  "lower s = map lower_char s"

section \<open>Tables\<close>

text \<open>
  A cell of a pandas table: missing (\<open>NaN\<close>, \<open>None\<close>, \<open>NaT\<close>), an integer, a finite float
  (the real number it stands for), an infinite float (\<open>Inf64 True\<close> is \<open>inf\<close>, \<open>Inf64 False\<close>
  is \<open>-inf\<close>), text or a calendar date (its day number).  A row maps column names to
  cells, a frame is its column names and its rows in order.  A column that a row does not
  hold reads as missing, as after \<open>pd.concat\<close> of frames with different columns.
\<close>

datatype cell = Null | Int64 int | Float64 real | Inf64 bool | Str string | Date int

text \<open>
  The dtype of a column is read off its cells, as \<open>pd.read_csv\<close> and \<open>apply\<close> infer it: a
  column with at least one row whose cells are all numbers or missing is a numeric
  column (\<open>int64\<close> or \<open>float64\<close>); a column that holds a text or a date, and a column
  without rows, is an object column.
\<close>

definition is_str :: "cell \<Rightarrow> bool" where
  "is_str c = (case c of Str _ \<Rightarrow> True | _ \<Rightarrow> False)"

definition is_number_or_null :: "cell \<Rightarrow> bool" where
  "is_number_or_null c = (case c of Str _ \<Rightarrow> False | Date _ \<Rightarrow> False | _ \<Rightarrow> True)"

definition numeric_column :: "cell list \<Rightarrow> bool" where
  "numeric_column xs = (xs \<noteq> [] \<and> list_all is_number_or_null xs)"

type_synonym row = "(string \<times> cell) list"

record frame =
  columns :: "string list"
  rows :: "row list"

datatype exn =
    KeyError string
  | NameError string
  | TypeError
  | ValueError
  | OverflowError
  | AttributeError
  | ReadError string

definition bind :: "exn + 'a \<Rightarrow> ('a \<Rightarrow> exn + 'b) \<Rightarrow> exn + 'b" where
  "bind m f = (case m of Inl e \<Rightarrow> Inl e | Inr x \<Rightarrow> f x)"

fun sequence :: "(exn + 'a) list \<Rightarrow> exn + 'a list" where
  "sequence [] = Inr []"
| "sequence (m # ms) = bind m (\<lambda>x. bind (sequence ms) (\<lambda>xs. Inr (x # xs)))"

definition cell_of :: "row \<Rightarrow> string \<Rightarrow> cell" where
  "cell_of r c = (case map_of r c of None \<Rightarrow> Null | Some v \<Rightarrow> v)"

text \<open>\<open>df[c]\<close>: the column as a list of cells, or \<open>KeyError\<close>.\<close>

definition get_column :: "frame \<Rightarrow> string \<Rightarrow> exn + cell list" where
  "get_column df c =
     (if c \<in> set (columns df) then Inr (map (\<lambda>r. cell_of r c) (rows df)) else Inl (KeyError c))"

text \<open>\<open>df[c] = vs\<close>: an existing column is overwritten in place, a new one comes last.\<close>

definition set_column :: "string \<Rightarrow> cell list \<Rightarrow> frame \<Rightarrow> frame" where
  "set_column c vs df =
     \<lparr>columns = (if c \<in> set (columns df) then columns df else columns df @ [c]),
      rows = map (\<lambda>(r, v). AList.update c v r) (zip (rows df) vs)\<rparr>"

text \<open>\<open>df.empty\<close>: no row or no column.\<close>

definition frame_empty :: "frame \<Rightarrow> bool" where
  "frame_empty df = (rows df = [] \<or> columns df = [])"

text \<open>\<open>pd.DataFrame()\<close>.\<close>

definition empty_frame :: frame where
  "empty_frame = \<lparr>columns = [], rows = []\<rparr>"

text \<open>\<open>xs.unique()\<close>: the distinct values in the order of their first occurrence.\<close>

definition unique :: "'a list \<Rightarrow> 'a list" where
  "unique xs = rev (remdups (rev xs))"

section \<open>Floats\<close>

text \<open>
  A Python float: finite (the real number it stands for), infinite (\<open>Infinite True\<close> is
  \<open>inf\<close>) or \<open>nan\<close>.
\<close>

datatype pyfloat = Finite real | Infinite bool | NaN

text \<open>The nearest integer of a real number, a tie going to the even one.\<close>

definition round_half_even :: "real \<Rightarrow> int" where
  "round_half_even x = (let n = \<lfloor>x\<rfloor>; d = x - of_int n
                 in if d < 1 / 2 then n else if 1 / 2 < d then n + 1
                    else if even n then n else n + 1)"

text \<open>
  The float of an integer, \<open>float(i)\<close> and the cast of \<open>int64\<close> to \<open>float64\<close>: the integer
  itself if it has at most 53 bits, else the nearest multiple of the unit in the last of
  53 places, a tie going to the even one.  (Every \<open>int64\<close> is in the range of the floats.)
\<close>

definition int_to_float64 :: "int \<Rightarrow> real" where
  "int_to_float64 i =
     (let n = bitlen \<bar>i\<bar>
      in if n \<le> 53 then of_int i
         else let u = 2 ^ nat (n - 53)
              in of_int (round_half_even (of_int i / of_int u) * u))"

section \<open>Matcher\<close>

text \<open>
  \<open>a + b\<close> on the cells of two object columns: text is concatenated, a missing operand
  gives a missing result, anything else is a \<open>TypeError\<close>.
\<close>

fun cell_add :: "cell \<Rightarrow> cell \<Rightarrow> exn + cell" where
  "cell_add Null _ = Inr Null"
| "cell_add (Str a) (Str b) = Inr (Str (a @ b))"
| "cell_add (Str a) Null = Inr Null"
| "cell_add _ _ = Inl TypeError"

definition series_add :: "cell list \<Rightarrow> cell list \<Rightarrow> exn + cell list" where
  "series_add xs ys = sequence (map (\<lambda>(x, y). cell_add x y) (zip xs ys))"

text \<open>
  \<open>xs + "t"\<close>: a numeric column cannot take a text, which is a \<open>TypeError\<close> also when all
  its cells are missing; in an object column the text is added to every cell.
\<close>

definition series_add_str :: "cell list \<Rightarrow> string \<Rightarrow> exn + cell list" where
  "series_add_str xs t =
     (if numeric_column xs then Inl TypeError
      else series_add xs (replicate (length xs) (Str t)))"

text \<open>
  \<open>xs.astype(str)\<close>.  The text that pandas gives a cell depends on the dtype of its
  column, so it is a parameter \<open>txt\<close> of the matcher.
\<close>

definition astype_str :: "(cell \<Rightarrow> string) \<Rightarrow> cell list \<Rightarrow> cell list" where
  "astype_str txt xs = map (\<lambda>x. Str (txt x)) xs"

text \<open>
  The right-hand side of
  \<^verbatim>\<open>df['product_id'] = (df['brand'] + "|" + df['screen_size_in'].astype(str) + "|" +\<close>
  \<^verbatim>\<open>    df['aspect_ratio'].astype(str) + "|" + df['refresh_rate_hz'].astype(str) + "|" +\<close>
  \<^verbatim>\<open>    df['response_time_ms'].astype(str))\<close>
  evaluated from left to right.
\<close>

definition product_id_column :: "(cell \<Rightarrow> string) \<Rightarrow> frame \<Rightarrow> exn + cell list" where
  "product_id_column txt df =
     bind (get_column df ''brand'') (\<lambda>brand.
     bind (series_add_str brand ''|'') (\<lambda>k1.
     bind (get_column df ''screen_size_in'') (\<lambda>inches.
     bind (series_add k1 (astype_str txt inches)) (\<lambda>k2.
     bind (series_add_str k2 ''|'') (\<lambda>k3.
     bind (get_column df ''aspect_ratio'') (\<lambda>ratio.
     bind (series_add k3 (astype_str txt ratio)) (\<lambda>k4.
     bind (series_add_str k4 ''|'') (\<lambda>k5.
     bind (get_column df ''refresh_rate_hz'') (\<lambda>rate.
     bind (series_add k5 (astype_str txt rate)) (\<lambda>k6.
     bind (series_add_str k6 ''|'') (\<lambda>k7.
     bind (get_column df ''response_time_ms'') (\<lambda>resp.
     series_add k7 (astype_str txt resp)))))))))))))"

text \<open>The frame after the assignment \<open>df['product_id'] = ...\<close>, which changes the argument.\<close>

definition add_product_id :: "(cell \<Rightarrow> string) \<Rightarrow> frame \<Rightarrow> exn + frame" where
  "add_product_id txt df =
     bind (product_id_column txt df) (\<lambda>ids. Inr (set_column ''product_id'' ids df))"

definition text_of :: "cell \<Rightarrow> string" where
  "text_of c = (case c of Str s \<Rightarrow> s | _ \<Rightarrow> [])"

text \<open>
  \<open>df.groupby('product_id')['platform'].unique()\<close>: rows with a missing key are dropped,
  the keys come sorted, and each key has the distinct platforms of its rows.
\<close>

definition platform_groups :: "frame \<Rightarrow> exn + (cell \<times> cell list) list" where
  "platform_groups df =
     bind (get_column df ''product_id'') (\<lambda>ids.
     bind (get_column df ''platform'') (\<lambda>platforms.
       Inr (map (\<lambda>k. (k, unique (map snd (filter (\<lambda>(i, p). i = k) (zip ids platforms)))))
             (sort_key text_of (unique (filter (\<lambda>i. i \<noteq> Null) ids))))))"

definition known_platforms :: "cell set" where
  "known_platforms = {Str ''ebay'', Str ''flipkart''}"

text \<open>
  \<^verbatim>\<open>platform_groups[platform_groups.apply(\<close>
  \<^verbatim>\<open>    lambda x: len(set(x) & {'ebay', 'flipkart'}) >= 2)].index.tolist()\<close>
\<close>

definition cross_platform :: "(cell \<times> cell list) list \<Rightarrow> cell list" where
  "cross_platform groups =
     map fst (filter (\<lambda>(k, x). 2 \<le> card (set x \<inter> known_platforms)) groups)"

text \<open>\<open>df[df['product_id'].isin(keys)]\<close>.\<close>

definition select_isin :: "cell list \<Rightarrow> frame \<Rightarrow> frame" where
  "select_isin keys df =
     df\<lparr>rows := filter (\<lambda>r. cell_of r ''product_id'' \<in> set keys) (rows df)\<rparr>"

definition filter_products_by_platforms :: "(cell \<Rightarrow> string) \<Rightarrow> frame \<Rightarrow> exn + frame" where
  "filter_products_by_platforms txt df =
     bind (add_product_id txt df) (\<lambda>df1.
     bind (platform_groups df1) (\<lambda>groups.
       Inr (select_isin (cross_platform groups) df1)))"

section \<open>The matcher, row by row\<close>

text \<open>
  The identity key of one row as the column expression of the matcher computes it (lemma
  \<open>product_id_column_rows\<close> below): the brand, then the texts of the other four fields,
  with \<open>|\<close> between them; a row whose brand is missing has a missing key.
\<close>

definition key_columns :: "string list" where
  "key_columns =
     [''brand'', ''screen_size_in'', ''aspect_ratio'', ''refresh_rate_hz'', ''response_time_ms'']"

definition textish :: "cell \<Rightarrow> bool" where
  "textish c = (case c of Null \<Rightarrow> True | Str _ \<Rightarrow> True | _ \<Rightarrow> False)"

definition append_text :: "cell \<Rightarrow> string \<Rightarrow> cell" where
  "append_text c t = (case c of Str s \<Rightarrow> Str (s @ t) | _ \<Rightarrow> Null)"

text \<open>
  A column of texts and missing cells that is an object column: it has no row, or a
  text in some row.  \<open>f\<close> reads the cell of a row.
\<close>

definition text_column :: "(row \<Rightarrow> cell) \<Rightarrow> row list \<Rightarrow> bool" where
  "text_column f rs =
     ((\<forall>r \<in> set rs. textish (f r)) \<and> (rs = [] \<or> (\<exists>r \<in> set rs. is_str (f r))))"

definition row_key :: "(cell \<Rightarrow> string) \<Rightarrow> row \<Rightarrow> cell" where
  "row_key txt r = (case cell_of r ''brand'' of
      Str b \<Rightarrow> Str (b @ ''|'' @ txt (cell_of r ''screen_size_in'') @ ''|'' @
                   txt (cell_of r ''aspect_ratio'') @ ''|'' @
                   txt (cell_of r ''refresh_rate_hz'') @ ''|'' @
                   txt (cell_of r ''response_time_ms''))
    | _ \<Rightarrow> Null)"

text \<open>The row with its key stored in the column \<open>product_id\<close>.\<close>

definition with_key :: "(cell \<Rightarrow> string) \<Rightarrow> row \<Rightarrow> row" where
  "with_key txt r = AList.update ''product_id'' (row_key txt r) r"

text \<open>The platforms observed for a key: those of the rows of the table that have this key.\<close>

definition key_platforms :: "(cell \<Rightarrow> string) \<Rightarrow> frame \<Rightarrow> cell \<Rightarrow> cell set" where
  "key_platforms txt df k =
     set (map (\<lambda>r. cell_of r ''platform'') (filter (\<lambda>r. row_key txt r = k) (rows df)))"

text \<open>
  A row is kept when it has a key (a text) and at least two of the known platforms are
  observed for that key.
\<close>

definition kept :: "(cell \<Rightarrow> string) \<Rightarrow> frame \<Rightarrow> row \<Rightarrow> bool" where
  "kept txt df r = (case row_key txt r of
      Str k \<Rightarrow> 2 \<le> card (key_platforms txt df (Str k) \<inter> known_platforms)
    | _ \<Rightarrow> False)"

section \<open>Daily aggregate\<close>

text \<open>
  From \<open>analyze_price_differences\<close>:
  \<^verbatim>\<open>grouped = filtered_df.groupby(['product_id', 'platform', 'collection_date'])['price']\<close>
  \<^verbatim>\<open>    .mean().unstack(level='platform')\<close>
  \<open>groupby\<close> drops every row that has a missing cell among the three keys.  \<open>mean\<close>
  works on floats: an integer price is cast to \<open>float64\<close>, a missing price is \<open>nan\<close> and
  is skipped, a group without any price has the mean \<open>nan\<close>, and a price that is not a
  number raises \<open>TypeError\<close>.  The float arithmetic of the mean itself, on a list of
  floats that are not \<open>nan\<close>, is a parameter \<open>fm\<close>.  The aggregate is kept as the list of
  the groups with their means; \<open>unstack\<close> only rearranges it, one column for each
  platform.  pandas sorts the groups; here they come in the order of their first rows.
\<close>

fun price_value :: "cell \<Rightarrow> exn + pyfloat" where
  "price_value Null = Inr NaN"
| "price_value (Int64 i) = Inr (Finite (int_to_float64 i))"
| "price_value (Float64 x) = Inr (Finite x)"
| "price_value (Inf64 b) = Inr (Infinite b)"
| "price_value _ = Inl TypeError"

definition mean :: "(pyfloat list \<Rightarrow> pyfloat) \<Rightarrow> pyfloat list \<Rightarrow> pyfloat" where
  "mean fm vs = (let xs = filter (\<lambda>v. v \<noteq> NaN) vs in if xs = [] then NaN else fm xs)"

type_synonym group_key = "cell \<times> cell \<times> cell"

definition has_null :: "group_key \<Rightarrow> bool" where
  "has_null k = (case k of (i, p, d) \<Rightarrow> i = Null \<or> p = Null \<or> d = Null)"

definition daily_mean ::
  "(pyfloat list \<Rightarrow> pyfloat) \<Rightarrow> frame \<Rightarrow> exn + (group_key \<times> pyfloat) list" where
  "daily_mean fm df =
     bind (get_column df ''product_id'') (\<lambda>ids.
     bind (get_column df ''platform'') (\<lambda>platforms.
     bind (get_column df ''collection_date'') (\<lambda>dates.
     bind (get_column df ''price'') (\<lambda>prices.
       let grouped = filter (\<lambda>(k, p). \<not> has_null k) (zip (zip ids (zip platforms dates)) prices)
       in bind (sequence (map (\<lambda>(k, p). price_value p) grouped)) (\<lambda>vs.
            let keyed = zip (map fst grouped) vs
            in Inr (map (\<lambda>k. (k, mean fm (map snd (filter (\<lambda>(k', v). k' = k) keyed))))
                      (unique (map fst grouped))))))))"





section \<open>Chart file names\<close>

text \<open>
  From \<open>analyze_price_differences\<close>:
  \<^verbatim>\<open>sanitized_title = re.sub(r"[^\w\s]", "_", product_id.replace("|", "_"))\<close>
  \<^verbatim>\<open>file_name = f"Monitor_{sanitized_title}.png"\<close>
  \<open>re_sub_nonword\<close> is \<open>re.sub(r"[^\w\s]", "_", s)\<close>: the pattern matches one character at
  a time, and every match is replaced by an underscore.
\<close>

definition re_sub_nonword :: "string \<Rightarrow> string" where
  "re_sub_nonword s = map (\<lambda>c. if is_word c \<or> is_space c then c else CHR ''_'') s"

definition sanitized_title :: "string \<Rightarrow> string" where
  "sanitized_title product_id = re_sub_nonword (replace_char CHR ''|'' CHR ''_'' product_id)"

definition file_name :: "string \<Rightarrow> string" where
  "file_name product_id = ''Monitor_'' @ sanitized_title product_id @ ''.png''"

text \<open>
  The rule in the words of the specification, for comparison: the separator becomes an
  underscore, then every character that is neither a word character nor whitespace is
  removed.
\<close>

definition spec_file_name :: "string \<Rightarrow> string" where
  "spec_file_name product_id =
     ''Monitor_'' @ filter (\<lambda>c. is_word c \<or> is_space c) (replace_char CHR ''|'' CHR ''_'' product_id)
       @ ''.png''"

section \<open>Loader\<close>

definition required_columns :: "string set" where
  "required_columns = {''title'', ''price'', ''screen_size_in'', ''aspect_ratio'',
     ''refresh_rate_hz'', ''response_time_ms'', ''brand'', ''collection_date''}"

text \<open>\<open>col.strip().lower().replace(" ", "_")\<close>\<close>

definition normalize_col :: "string \<Rightarrow> string" where
  "normalize_col col = replace_char CHR '' '' CHR ''_'' (lower (strip col))"

text \<open>
  \<open>df.columns = [f(col) for col in df.columns]\<close>.  Two columns that get the same name are
  both kept by pandas; here the first one is read under that name.
\<close>

definition rename_columns :: "(string \<Rightarrow> string) \<Rightarrow> frame \<Rightarrow> frame" where
  "rename_columns f df =
     \<lparr>columns = map f (columns df), rows = map (map (\<lambda>(c, v). (f c, v))) (rows df)\<rparr>"

text \<open>
  A file found by \<open>data_dir.glob('*.csv')\<close>: its path and what \<open>pd.read_csv\<close> gives for
  it, a frame or an exception.  The data directory of a platform is absent or holds the
  files in the order of \<open>glob\<close>.
\<close>

record csv_file =
  path :: string
  content :: "exn + frame"

type_synonym tree = "string \<Rightarrow> csv_file list option"

text \<open>
  The two names that \<open>load_cleaned_data\<close> reads from the module globals; \<open>None\<close> is a name
  that is not bound.  The cells of the notebook neither define nor import them.
\<close>

record globals =
  normalize_brand :: "(cell \<Rightarrow> exn + cell) option"
  normalize_aspect_ratio :: "(cell \<Rightarrow> exn + cell) option"

definition notebook_globals :: globals where
  "notebook_globals = \<lparr>normalize_brand = None, normalize_aspect_ratio = None\<rparr>"

text \<open>
  What the program takes from Python and pandas without the model fixing it:
  \<open>float_text s\<close> is \<open>float(s)\<close> for a text (\<open>None\<close> when it raises \<open>ValueError\<close>),
  \<open>float_mean\<close> is the \<open>float64\<close> mean of a list of floats that are not \<open>nan\<close>,
  \<open>to_date\<close> is \<open>pd.to_datetime(..., errors='coerce').dt.date\<close> on one cell, and \<open>str_of\<close>
  is the text that \<open>astype(str)\<close> gives a cell.
\<close>

record library =
  float_text :: "string \<Rightarrow> pyfloat option"
  float_mean :: "pyfloat list \<Rightarrow> pyfloat"
  to_date :: "cell \<Rightarrow> cell"
  str_of :: "cell \<Rightarrow> string"

datatype log_entry =
    MissingDirectory string
  | MissingColumns string "string set"
  | ErrorLoading string exn
  | LoadingData
  | NoCleanedData
  | LoadedRecords nat
  | FoundEntries nat
  | NoCrossPlatform
  | CriticalError exn

datatype level = INFO | WARNING | ERROR

fun level_of :: "log_entry \<Rightarrow> level" where
  "level_of (MissingDirectory _) = WARNING"
| "level_of (MissingColumns _ _) = WARNING"
| "level_of (ErrorLoading _ _) = ERROR"
| "level_of LoadingData = INFO"
| "level_of NoCleanedData = ERROR"
| "level_of (LoadedRecords _) = INFO"
| "level_of (FoundEntries _) = INFO"
| "level_of NoCrossPlatform = INFO"
| "level_of (CriticalError _) = ERROR"

text \<open>\<open>xs.apply(name)\<close> for a module global \<open>name\<close>: an unbound name is a \<open>NameError\<close>.\<close>

definition apply_global ::
  "string \<Rightarrow> (cell \<Rightarrow> exn + cell) option \<Rightarrow> cell list \<Rightarrow> exn + cell list" where
  "apply_global name f xs =
     (case f of None \<Rightarrow> Inl (NameError name) | Some g \<Rightarrow> sequence (map g xs))"

text \<open>\<open>float(x)\<close>, for the value of a cell.\<close>

fun py_float :: "(string \<Rightarrow> pyfloat option) \<Rightarrow> cell \<Rightarrow> exn + pyfloat" where
  "py_float ft (Int64 i) = Inr (Finite (int_to_float64 i))"
| "py_float ft (Float64 x) = Inr (Finite x)"
| "py_float ft (Inf64 b) = Inr (Infinite b)"
| "py_float ft (Str s) = (case ft s of None \<Rightarrow> Inl ValueError | Some v \<Rightarrow> Inr v)"
| "py_float ft (Date d) = Inl TypeError"
| "py_float ft Null = Inr NaN"

text \<open>
  \<open>round(v)\<close> for a float: the nearest integer, a tie going to the even one;
  \<open>OverflowError\<close> for an infinite float and \<open>ValueError\<close> for \<open>nan\<close>.
\<close>

fun py_round :: "pyfloat \<Rightarrow> exn + int" where
  "py_round (Finite x) = Inr (round_half_even x)"
| "py_round (Infinite b) = Inl OverflowError"
| "py_round NaN = Inl ValueError"

text \<open>\<open>lambda x: round(float(x)) if pd.notnull(x) else None\<close>\<close>

definition screen_size_conv :: "(string \<Rightarrow> pyfloat option) \<Rightarrow> cell \<Rightarrow> exn + cell" where
  "screen_size_conv ft x =
     (if x \<noteq> Null
      then bind (py_float ft x) (\<lambda>v. bind (py_round v) (\<lambda>n. Inr (Int64 n)))
      else Inr Null)"

text \<open>
  The four assignments under \<open># Normalize key fields\<close> and \<open># Handle collection date\<close>.
\<close>

definition normalize_fields :: "globals \<Rightarrow> library \<Rightarrow> frame \<Rightarrow> exn + frame" where
  "normalize_fields g lib df =
     bind (get_column df ''brand'') (\<lambda>brand.
     bind (apply_global ''normalize_brand'' (normalize_brand g) brand) (\<lambda>brand'.
     let df1 = set_column ''brand'' brand' df in
     bind (get_column df1 ''aspect_ratio'') (\<lambda>ratio.
     bind (apply_global ''normalize_aspect_ratio'' (normalize_aspect_ratio g) ratio) (\<lambda>ratio'.
     let df2 = set_column ''aspect_ratio'' ratio' df1 in
     bind (get_column df2 ''screen_size_in'') (\<lambda>inches.
     bind (sequence (map (screen_size_conv (float_text lib)) inches)) (\<lambda>inches'.
     let df3 = set_column ''screen_size_in'' inches' df2 in
     bind (get_column df3 ''collection_date'') (\<lambda>dates.
     Inr (set_column ''collection_date'' (map (to_date lib) dates) df3))))))))"

text \<open>
  The body of the loop over the files, with its \<open>try\<close>: the log entries it writes, and the
  frame it appends to \<open>dfs\<close> if it appends one.
\<close>

definition load_file ::
  "globals \<Rightarrow> library \<Rightarrow> string \<Rightarrow> csv_file \<Rightarrow> log_entry list \<times> frame option" where
  "load_file g lib platform file =
     (case content file of
        Inl e \<Rightarrow> ([ErrorLoading (path file) e], None)
      | Inr df0 \<Rightarrow>
          let df = rename_columns normalize_col df0;
              missing_cols = required_columns - set (columns df)
          in if missing_cols \<noteq> {} then ([MissingColumns (path file) missing_cols], None)
             else (case normalize_fields g lib
                          (set_column ''platform'' (replicate (length (rows df)) (Str platform)) df) of
                     Inl e \<Rightarrow> ([ErrorLoading (path file) e], None)
                   | Inr df' \<Rightarrow> ([], Some df')))"

fun load_files ::
  "globals \<Rightarrow> library \<Rightarrow> string \<Rightarrow> csv_file list \<Rightarrow> log_entry list \<times> frame list" where
  "load_files g lib platform [] = ([], [])"
| "load_files g lib platform (file # files) =
     (let (l, d) = load_file g lib platform file;
          (ls, ds) = load_files g lib platform files
      in (l @ ls, (case d of None \<Rightarrow> ds | Some df \<Rightarrow> df # ds)))"

text \<open>One round of the loop over the platforms.\<close>

definition load_platform ::
  "globals \<Rightarrow> library \<Rightarrow> tree \<Rightarrow> string \<Rightarrow> log_entry list \<times> frame list" where
  "load_platform g lib t platform =
     (case t platform of
        None \<Rightarrow> ([MissingDirectory platform], [])
      | Some files \<Rightarrow> load_files g lib platform files)"

text \<open>\<open>pd.concat(dfs, ignore_index=True)\<close>\<close>

definition concat_frames :: "frame list \<Rightarrow> frame" where
  "concat_frames dfs =
     \<lparr>columns = unique (concat (map columns dfs)), rows = concat (map rows dfs)\<rparr>"

definition load_cleaned_data :: "globals \<Rightarrow> library \<Rightarrow> tree \<Rightarrow> log_entry list \<times> frame" where
  "load_cleaned_data g lib t =
     (let (l1, d1) = load_platform g lib t ''ebay'';
          (l2, d2) = load_platform g lib t ''flipkart'';
          dfs = d1 @ d2
      in (l1 @ l2, if dfs = [] then empty_frame else concat_frames dfs))"

text \<open>The log entries that the loader writes.\<close>

definition loader_entry :: "log_entry \<Rightarrow> bool" where
  "loader_entry x = (case x of MissingDirectory _ \<Rightarrow> True | MissingColumns _ _ \<Rightarrow> True
     | ErrorLoading _ _ \<Rightarrow> True | _ \<Rightarrow> False)"

section \<open>Analysis and main block\<close>

text \<open>
  \<open>analyze_price_differences\<close>: the log entries, the chart files written, in order, and the
  exception if one is raised.  The loop writes one chart for each identity key of the
  aggregate, in sorted order.  A key that is not a text has no working \<open>replace\<close>, and
  pandas sorts such keys before the texts, so that no chart is written then.  Drawing a
  chart and writing its file are taken to succeed.
\<close>

definition analyze_price_differences ::
  "(pyfloat list \<Rightarrow> pyfloat) \<Rightarrow> frame \<Rightarrow> log_entry list \<times> string list \<times> exn option" where
  "analyze_price_differences fm filtered_df =
     (if frame_empty filtered_df then ([NoCrossPlatform], [], None)
      else (case daily_mean fm filtered_df of
              Inl e \<Rightarrow> ([], [], Some e)
            | Inr grouped \<Rightarrow>
                let ids = unique (map (\<lambda>((i, p, d), m). i) grouped)
                in if list_all is_str ids
                   then ([], map file_name (sort (map text_of ids)), None)
                   else ([], [], Some AttributeError)))"

text \<open>
  The \<open>try\<close> block of the main part.  \<open>exit(1)\<close> raises \<open>SystemExit\<close>, which is not an
  \<open>Exception\<close>: the handler does not catch it and the process ends with status 1.  The
  handler itself only logs; the script then ends, with status 0.  The two \<open>mkdir\<close> calls
  before the \<open>try\<close> and failures of \<open>exists\<close> and \<open>glob\<close> are not modelled.
\<close>

record outcome =
  exit_status :: nat
  logged :: "log_entry list"
  charts :: "string list"

definition main :: "globals \<Rightarrow> library \<Rightarrow> tree \<Rightarrow> outcome" where
  "main g lib t =
     (let (l1, df) = load_cleaned_data g lib t
      in if frame_empty df
         then \<lparr>exit_status = 1, logged = LoadingData # l1 @ [NoCleanedData], charts = []\<rparr>
         else (case filter_products_by_platforms (str_of lib) df of
                 Inl e \<Rightarrow>
                   \<lparr>exit_status = 0,
                    logged = LoadingData # l1 @ [LoadedRecords (length (rows df)), CriticalError e],
                    charts = []\<rparr>
               | Inr filtered_df \<Rightarrow>
                   let (l2, cs, err) = analyze_price_differences (float_mean lib) filtered_df
                   in \<lparr>exit_status = 0,
                       logged = LoadingData # l1 @
                         [LoadedRecords (length (rows df)),
                          FoundEntries (length (rows filtered_df))] @ l2 @
                         (case err of None \<Rightarrow> [] | Some e \<Rightarrow> [CriticalError e]),
                       charts = cs\<rparr>))"

section \<open>Example tables\<close>

text \<open>
  The text of a cell in the examples: \<open>str\<close> of a Python integer, text as it is, \<open>nan\<close>
  for a missing cell.  The texts of floats and dates are left to two parameters.
\<close>

definition digit_char :: "nat \<Rightarrow> char" where
  "digit_char n = ''0123456789'' ! n"

function nat_text :: "nat \<Rightarrow> string" where
  "nat_text n = (if n < 10 then [digit_char n] else nat_text (n div 10) @ [digit_char (n mod 10)])"
  by pat_completeness auto
termination
  by (relation "measure id") auto

definition int_text :: "int \<Rightarrow> string" where
  "int_text i = (if i < 0 then CHR ''-'' # nat_text (nat (- i)) else nat_text (nat i))"

definition cell_text :: "(real \<Rightarrow> string) \<Rightarrow> (int \<Rightarrow> string) \<Rightarrow> cell \<Rightarrow> string" where
  "cell_text ftxt dtxt c = (case c of
      Null \<Rightarrow> ''nan'' | Int64 i \<Rightarrow> int_text i | Float64 x \<Rightarrow> ftxt x
    | Inf64 b \<Rightarrow> (if b then ''inf'' else ''-inf'') | Str s \<Rightarrow> s | Date d \<Rightarrow> dtxt d)"

definition example_text :: "cell \<Rightarrow> string" where
  "example_text = cell_text (\<lambda>_. []) (\<lambda>_. [])"

text \<open>
  A listing of a 16:9, 144 Hz, 1 ms monitor.  Day 19723 is 2024-01-01, counted from
  1970-01-01.
\<close>

definition monitor :: "cell \<Rightarrow> int \<Rightarrow> string \<Rightarrow> int \<Rightarrow> cell \<Rightarrow> row" where
  "monitor brand inches platform day price =
     [(''title'', Str ''Monitor''), (''price'', price), (''screen_size_in'', Int64 inches),
      (''aspect_ratio'', Str ''16:9''), (''refresh_rate_hz'', Int64 144),
      (''response_time_ms'', Int64 1), (''brand'', brand), (''collection_date'', Date day),
      (''platform'', Str platform)]"

definition example_columns :: "string list" where
  "example_columns = [''title'', ''price'', ''screen_size_in'', ''aspect_ratio'',
     ''refresh_rate_hz'', ''response_time_ms'', ''brand'', ''collection_date'', ''platform'']"

text \<open>
  The example of the specification: a Dell 24 on both platforms, a Dell 27 on ebay only.
\<close>

definition dell_24_ebay :: row where
  "dell_24_ebay = monitor (Str ''Dell'') 24 ''ebay'' 19723 (Int64 200)"

definition dell_24_flipkart :: row where
  "dell_24_flipkart = monitor (Str ''Dell'') 24 ''flipkart'' 19723 (Int64 19000)"

definition dell_27_ebay :: row where
  "dell_27_ebay = monitor (Str ''Dell'') 27 ''ebay'' 19723 (Int64 250)"

definition example :: frame where
  "example = \<lparr>columns = example_columns,
     rows = [dell_24_ebay, dell_24_flipkart, dell_27_ebay]\<rparr>"

definition example_matched :: frame where
  "example_matched = \<lparr>columns = example_columns @ [''product_id''],
     rows = [dell_24_ebay @ [(''product_id'', Str ''Dell|24|16:9|144|1'')],
             dell_24_flipkart @ [(''product_id'', Str ''Dell|24|16:9|144|1'')]]\<rparr>"

text \<open>The same monitor listed twice without a brand, once on each platform.\<close>

definition no_brand_ebay :: row where
  "no_brand_ebay = monitor Null 24 ''ebay'' 19723 (Int64 210)"

definition no_brand_flipkart :: row where
  "no_brand_flipkart = monitor Null 24 ''flipkart'' 19723 (Int64 18000)"

definition example_no_brand :: frame where
  "example_no_brand = \<lparr>columns = example_columns,
     rows = [dell_24_ebay, dell_24_flipkart, no_brand_ebay, no_brand_flipkart]\<rparr>"



section \<open>Example files\<close>

text \<open>
  A library for the examples.  \<open>example_float_text\<close> is \<open>float\<close> on the texts that are
  decimal digits, or decimal digits, the letter \<open>e\<close> and decimal digits: the number is
  rounded to a float, and is \<open>inf\<close> from \<open>2 ^ 1024 - 2 ^ 970\<close> on.  It rejects every other
  text, although \<open>float\<close> accepts more (signs, fractions, \<open>inf\<close>, \<open>nan\<close>); the examples
  use it on \<open>27\<close>, \<open>1e400\<close> and \<open>abc\<close>.  \<open>example_float_mean\<close> is the mean of floats as
  far as the sum and the quotient are floats themselves, which they are in the examples;
  the rounding of other sums is not in it.  \<open>example_to_date\<close> knows the one date of the
  examples.
\<close>

definition is_digit :: "char \<Rightarrow> bool" where
  "is_digit c = (48 \<le> code_point c \<and> code_point c \<le> 57)"

definition all_digits :: "string \<Rightarrow> bool" where
  "all_digits s = (s \<noteq> [] \<and> list_all is_digit s)"

definition digits_value :: "string \<Rightarrow> int" where
  "digits_value s = foldl (\<lambda>n c. 10 * n + (int (code_point c) - 48)) 0 s"

definition int_float :: "int \<Rightarrow> pyfloat" where
  "int_float i =
     (if 2 ^ 1024 - 2 ^ 970 \<le> i then Infinite True else Finite (int_to_float64 i))"

definition example_float_text :: "string \<Rightarrow> pyfloat option" where
  "example_float_text s =
     (let m = takeWhile (\<lambda>c. c \<noteq> CHR ''e'') s;
          rest = dropWhile (\<lambda>c. c \<noteq> CHR ''e'') s
      in if rest = []
         then (if all_digits m then Some (int_float (digits_value m)) else None)
         else (if all_digits m \<and> all_digits (tl rest)
               then Some (int_float (digits_value m * 10 ^ nat (digits_value (tl rest))))
               else None))"

definition example_float_mean :: "pyfloat list \<Rightarrow> pyfloat" where
  "example_float_mean vs =
     (if NaN \<in> set vs \<or> (Infinite True \<in> set vs \<and> Infinite False \<in> set vs) then NaN
      else if Infinite True \<in> set vs then Infinite True
      else if Infinite False \<in> set vs then Infinite False
      else Finite (sum_list (map (\<lambda>v. case v of Finite x \<Rightarrow> x | _ \<Rightarrow> 0) vs) /
                   real (length vs)))"

definition example_to_date :: "cell \<Rightarrow> cell" where
  "example_to_date c = (case c of
      Str s \<Rightarrow> (if s = ''2024-01-01'' then Date 19723 else Null)
    | Date d \<Rightarrow> Date d
    | _ \<Rightarrow> Null)"

definition example_library :: library where
  "example_library =
     \<lparr>float_text = example_float_text, float_mean = example_float_mean,
      to_date = example_to_date, str_of = example_text\<rparr>"

text \<open>Globals in which both names are bound to functions that return their argument.\<close>

definition passthrough_globals :: globals where
  "passthrough_globals = \<lparr>normalize_brand = Some Inr, normalize_aspect_ratio = Some Inr\<rparr>"

text \<open>A file with one listing, as \<open>pd.read_csv\<close> returns it.\<close>

definition csv_columns :: "string list" where
  "csv_columns = [''Title'', ''Price'', ''Screen Size In'', ''Aspect Ratio'',
     ''Refresh Rate Hz'', ''Response Time Ms'', '' Brand '', ''Collection Date'']"

definition csv_row :: "cell \<Rightarrow> cell \<Rightarrow> cell \<Rightarrow> row" where
  "csv_row brand inches price =
     [(''Title'', Str ''Monitor''), (''Price'', price), (''Screen Size In'', inches),
      (''Aspect Ratio'', Str ''16:9''), (''Refresh Rate Hz'', Int64 144),
      (''Response Time Ms'', Int64 1), ('' Brand '', brand),
      (''Collection Date'', Str ''2024-01-01'')]"

definition csv :: "string \<Rightarrow> cell \<Rightarrow> cell \<Rightarrow> cell \<Rightarrow> csv_file" where
  "csv name brand inches price =
     \<lparr>path = name,
      content = Inr \<lparr>columns = csv_columns, rows = [csv_row brand inches price]\<rparr>\<rparr>"

definition dell_file :: csv_file where
  "dell_file = csv ''dell.csv'' (Str ''Dell'') (Int64 24) (Int64 200)"

text \<open>
  A file whose screen size is not a number, one whose brand is a number, and one whose
  price is not a number.
\<close>

definition abc_file :: csv_file where
  "abc_file = csv ''abc.csv'' (Str ''Dell'') (Str ''abc'') (Int64 200)"

definition brand_7_file :: csv_file where
  "brand_7_file = csv ''seven.csv'' (Int64 7) (Int64 24) (Int64 200)"

definition text_price_file :: csv_file where
  "text_price_file = csv ''price.csv'' (Str ''Dell'') (Int64 24) (Str ''cheap'')"

text \<open>A file without the column \<open>brand\<close>.\<close>

definition no_brand_column_file :: csv_file where
  "no_brand_column_file =
     \<lparr>path = ''nobrand.csv'',
      content = Inr \<lparr>columns = remove1 '' Brand '' csv_columns,
                     rows = [AList.delete '' Brand '' (csv_row Null (Int64 24) (Int64 200))]\<rparr>\<rparr>"


definition only_ebay :: "csv_file list \<Rightarrow> tree" where
  "only_ebay files = (\<lambda>platform. if platform = ''ebay'' then Some files else None)"

definition both_platforms :: "csv_file list \<Rightarrow> csv_file list \<Rightarrow> tree" where
  "both_platforms ebay flipkart =
     (\<lambda>platform. if platform = ''ebay'' then Some ebay
                 else if platform = ''flipkart'' then Some flipkart else None)"

definition no_directories :: tree where
  "no_directories = (\<lambda>platform. None)"

section \<open>Basic facts\<close>

lemma bind_Inr: "bind (Inr x) f = f x"
  by (simp add: bind_def)

lemma bind_Inl: "bind (Inl e) f = Inl e"
  by (simp add: bind_def)

section \<open>Properties of the matcher\<close>

subsection \<open>The key column, row by row\<close>

lemma sequence_map_Inr:
  "\<forall>x \<in> set xs. f x = Inr (g x) \<Longrightarrow> sequence (map f xs) = Inr (map g xs)"
  by (induction xs) (auto simp: bind_def)

lemma sequence_map_Inr_D:
  "sequence (map f xs) = Inr ys \<Longrightarrow> \<forall>x \<in> set xs. \<exists>y. f x = Inr y"
  by (induction xs arbitrary: ys) (auto simp: bind_def split: sum.splits)

lemma cell_add_textish: "textish x \<Longrightarrow> cell_add x (Str t) = Inr (append_text x t)"
  by (cases x) (auto simp: textish_def append_text_def)

lemma cell_add_Str_D: "cell_add x (Str t) = Inr y \<Longrightarrow> textish x"
  by (cases x) (auto simp: textish_def)

lemma textish_append_text: "textish (append_text x t)"
  by (cases x) (auto simp: textish_def append_text_def)

lemma series_add_rows:
  "\<forall>r \<in> set rs. textish (f r) \<Longrightarrow>
   series_add (map f rs) (astype_str txt (map g rs)) =
     Inr (map (\<lambda>r. append_text (f r) (txt (g r))) rs)"
  unfolding series_add_def astype_str_def
  by (simp add: zip_map_map zip_same_conv_map sequence_map_Inr cell_add_textish)

lemma is_str_append_text: "is_str (append_text x t) = is_str x"
  by (cases x) (auto simp: is_str_def append_text_def)

lemma textish_number: "textish x \<Longrightarrow> is_number_or_null x \<longleftrightarrow> x = Null"
  by (cases x) (auto simp: textish_def is_number_or_null_def)

lemma is_str_not_number: "is_str x \<Longrightarrow> \<not> is_number_or_null x"
  by (cases x) (auto simp: is_str_def is_number_or_null_def)

lemma text_column_not_numeric: "text_column f rs \<Longrightarrow> \<not> numeric_column (map f rs)"
  by (auto simp: text_column_def numeric_column_def list_all_iff dest: is_str_not_number)

lemma text_column_append_text:
  "text_column f rs \<Longrightarrow> text_column (\<lambda>r. append_text (f r) t) rs"
  by (auto simp: text_column_def textish_append_text is_str_append_text)

lemma series_add_text_column:
  assumes "text_column f rs"
  shows "series_add (map f rs) (astype_str txt (map g rs)) =
     Inr (map (\<lambda>r. append_text (f r) (txt (g r))) rs)"
    and "text_column (\<lambda>r. append_text (f r) (txt (g r))) rs"
  using assms series_add_rows [of rs f "txt" g]
  by (auto simp: text_column_def textish_append_text is_str_append_text)

lemma series_add_str_rows:
  assumes "text_column f rs"
  shows "series_add_str (map f rs) t = Inr (map (\<lambda>r. append_text (f r) t) rs)"
proof -
  from assms have tx: "\<forall>r \<in> set rs. textish (f r)"
    by (simp add: text_column_def)
  have "replicate (length (map f rs)) (Str t) = astype_str (\<lambda>_. t) (map (\<lambda>_. Null) rs)"
    by (simp add: astype_str_def map_replicate_const)
  then show ?thesis
    unfolding series_add_str_def
    using series_add_rows [OF tx, of "\<lambda>_. t" "\<lambda>_. Null"] text_column_not_numeric [OF assms]
    by simp
qed

lemma series_add_str_rows_D:
  assumes "series_add_str (map f rs) t = Inr ys"
  shows "text_column f rs"
proof -
  from assms have nn: "\<not> numeric_column (map f rs)"
    by (auto simp: series_add_str_def split: if_splits)
  have "replicate (length (map f rs)) (Str t) = map (\<lambda>r. Str t) rs"
    by (simp add: map_replicate_const)
  with assms nn have "sequence (map (\<lambda>r. cell_add (f r) (Str t)) rs) = Inr ys"
    by (simp add: series_add_str_def series_add_def zip_map_map zip_same_conv_map comp_def)
  from sequence_map_Inr_D [OF this] have tx: "\<forall>r \<in> set rs. textish (f r)"
    by (auto dest: cell_add_Str_D)
  have "rs = [] \<or> (\<exists>r \<in> set rs. is_str (f r))"
  proof (rule ccontr)
    assume c: "\<not> (rs = [] \<or> (\<exists>r \<in> set rs. is_str (f r)))"
    have "f r = Null" if "r \<in> set rs" for r
    proof -
      from tx that have "textish (f r)" by blast
      moreover from c that have "\<not> is_str (f r)" by blast
      ultimately show ?thesis
        by (cases "f r") (auto simp: textish_def is_str_def)
    qed
    with c have "numeric_column (map f rs)"
      by (auto simp: numeric_column_def list_all_iff is_number_or_null_def)
    with nn show False by simp
  qed
  with tx show ?thesis by (simp add: text_column_def)
qed

lemma row_key_unfold:
  "row_key txt r =
     append_text (append_text (append_text (append_text (append_text (append_text
       (append_text (append_text (cell_of r ''brand'') ''|'')
          (txt (cell_of r ''screen_size_in''))) ''|'')
          (txt (cell_of r ''aspect_ratio''))) ''|'')
          (txt (cell_of r ''refresh_rate_hz''))) ''|'')
          (txt (cell_of r ''response_time_ms''))"
  by (cases "cell_of r ''brand''") (auto simp: row_key_def append_text_def)

lemma product_id_column_rows:
  assumes cols: "set key_columns \<subseteq> set (columns df)"
    and tc: "text_column (\<lambda>r. cell_of r ''brand'') (rows df)"
  shows "product_id_column txt df = Inr (map (row_key txt) (rows df))"
proof -
  let ?rs = "rows df"
  let ?k1 = "\<lambda>r. append_text (cell_of r ''brand'') ''|''"
  let ?k2 = "\<lambda>r. append_text (?k1 r) (txt (cell_of r ''screen_size_in''))"
  let ?k3 = "\<lambda>r. append_text (?k2 r) ''|''"
  let ?k4 = "\<lambda>r. append_text (?k3 r) (txt (cell_of r ''aspect_ratio''))"
  let ?k5 = "\<lambda>r. append_text (?k4 r) ''|''"
  let ?k6 = "\<lambda>r. append_text (?k5 r) (txt (cell_of r ''refresh_rate_hz''))"
  let ?k7 = "\<lambda>r. append_text (?k6 r) ''|''"
  note s1 = series_add_str_rows [OF tc, of "''|''"]
  note c1 = text_column_append_text [OF tc, of "''|''"]
  note s2 = series_add_text_column [OF c1, of "txt" "\<lambda>r. cell_of r ''screen_size_in''"]
  note s3 = series_add_str_rows [OF s2(2), of "''|''"]
  note c3 = text_column_append_text [OF s2(2), of "''|''"]
  note s4 = series_add_text_column [OF c3, of "txt" "\<lambda>r. cell_of r ''aspect_ratio''"]
  note s5 = series_add_str_rows [OF s4(2), of "''|''"]
  note c5 = text_column_append_text [OF s4(2), of "''|''"]
  note s6 = series_add_text_column [OF c5, of "txt" "\<lambda>r. cell_of r ''refresh_rate_hz''"]
  note s7 = series_add_str_rows [OF s6(2), of "''|''"]
  note c7 = text_column_append_text [OF s6(2), of "''|''"]
  note s8 = series_add_text_column [OF c7, of "txt" "\<lambda>r. cell_of r ''response_time_ms''"]
  from cols show ?thesis
    unfolding product_id_column_def
    by (simp add: get_column_def key_columns_def bind_Inr s1 s2(1) s3 s4(1) s5 s6(1) s7 s8(1)
        row_key_unfold)
qed

lemma product_id_column_D:
  assumes "product_id_column txt df = Inr ids"
  shows "set key_columns \<subseteq> set (columns df) \<and>
         text_column (\<lambda>r. cell_of r ''brand'') (rows df)"
proof -
  from assms have b: "''brand'' \<in> set (columns df)"
    by (auto simp: product_id_column_def get_column_def bind_def split: if_splits)
  from assms b obtain k1
    where k1: "series_add_str (map (\<lambda>r. cell_of r ''brand'') (rows df)) ''|'' = Inr k1"
    by (auto simp: product_id_column_def get_column_def bind_def split: if_splits sum.splits)
  from series_add_str_rows_D [OF k1]
  have tc: "text_column (\<lambda>r. cell_of r ''brand'') (rows df)" .
  let ?rs = "rows df"
  note s1 = series_add_str_rows [OF tc, of "''|''"]
  note c1 = text_column_append_text [OF tc, of "''|''"]
  note s2 = series_add_text_column [OF c1, of "txt" "\<lambda>r. cell_of r ''screen_size_in''"]
  note s3 = series_add_str_rows [OF s2(2), of "''|''"]
  note c3 = text_column_append_text [OF s2(2), of "''|''"]
  note s4 = series_add_text_column [OF c3, of "txt" "\<lambda>r. cell_of r ''aspect_ratio''"]
  note s5 = series_add_str_rows [OF s4(2), of "''|''"]
  note c5 = text_column_append_text [OF s4(2), of "''|''"]
  note s6 = series_add_text_column [OF c5, of "txt" "\<lambda>r. cell_of r ''refresh_rate_hz''"]
  note s7 = series_add_str_rows [OF s6(2), of "''|''"]
  from assms b have "set key_columns \<subseteq> set (columns df)"
    unfolding product_id_column_def
    by (simp add: get_column_def key_columns_def bind_Inr bind_Inl s1 s2(1) s3 s4(1) s5 s6(1) s7
        split: if_splits)
  with tc show ?thesis by simp
qed

lemma cell_of_update_same: "cell_of (AList.update c v r) c = v"
  by (simp add: cell_of_def update_conv')

lemma cell_of_update_other: "c' \<noteq> c \<Longrightarrow> cell_of (AList.update c v r) c' = cell_of r c'"
  by (simp add: cell_of_def update_conv')

lemma set_unique: "set (unique xs) = set xs"
  by (simp add: unique_def)

lemma row_key_cases: "row_key txt r = Null \<or> (\<exists>k. row_key txt r = Str k)"
  by (cases "cell_of r ''brand''") (auto simp: row_key_def)

lemma add_product_id_D:
  assumes "add_product_id txt df = Inr df1"
  shows "rows df1 = map (with_key txt) (rows df)"
    and "columns df1 = (if ''product_id'' \<in> set (columns df) then columns df
                        else columns df @ [''product_id''])"
    and "set key_columns \<subseteq> set (columns df)"
    and "text_column (\<lambda>r. cell_of r ''brand'') (rows df)"
proof -
  from assms obtain ids where ids: "product_id_column txt df = Inr ids"
    and df1: "df1 = set_column ''product_id'' ids df"
    by (auto simp: add_product_id_def bind_def split: sum.splits)
  from product_id_column_D [OF ids]
  show c: "set key_columns \<subseteq> set (columns df)"
    and t: "text_column (\<lambda>r. cell_of r ''brand'') (rows df)" by simp_all
  from product_id_column_rows [OF c t, of "txt"] ids
  have "ids = map (row_key txt) (rows df)" by simp
  with df1 show "rows df1 = map (with_key txt) (rows df)"
    by (simp add: set_column_def zip_map2 zip_same_conv_map with_key_def comp_def)
  from df1 show "columns df1 = (if ''product_id'' \<in> set (columns df) then columns df
                        else columns df @ [''product_id''])"
    by (simp add: set_column_def)
qed

subsection \<open>Groups and the kept keys\<close>

lemma platform_groups_D:
  assumes "platform_groups df = Inr groups"
  shows "''platform'' \<in> set (columns df)"
    and "set groups = (\<lambda>k. (k, unique (map (\<lambda>r. cell_of r ''platform'')
            (filter (\<lambda>r. cell_of r ''product_id'' = k) (rows df))))) `
            {k \<in> (\<lambda>r. cell_of r ''product_id'') ` set (rows df). k \<noteq> Null}"
proof -
  from assms show p: "''platform'' \<in> set (columns df)"
    by (auto simp: platform_groups_def get_column_def bind_def split: if_splits)
  have sel: "map snd (filter (\<lambda>(i, p). i = k) (zip (map f rs) (map g rs))) =
             map g (filter (\<lambda>r. f r = k) rs)"
    for k :: cell and f g :: "row \<Rightarrow> cell" and rs
    by (induction rs) auto
  from assms p show "set groups = (\<lambda>k. (k, unique (map (\<lambda>r. cell_of r ''platform'')
            (filter (\<lambda>r. cell_of r ''product_id'' = k) (rows df))))) `
            {k \<in> (\<lambda>r. cell_of r ''product_id'') ` set (rows df). k \<noteq> Null}"
    by (auto simp: platform_groups_def get_column_def bind_def sel set_unique split: if_splits)
qed

lemma cross_platform_iff:
  assumes "platform_groups df = Inr groups"
  shows "k \<in> set (cross_platform groups) \<longleftrightarrow>
     k \<noteq> Null \<and> k \<in> (\<lambda>r. cell_of r ''product_id'') ` set (rows df) \<and>
     2 \<le> card (set (map (\<lambda>r. cell_of r ''platform'')
            (filter (\<lambda>r. cell_of r ''product_id'' = k) (rows df))) \<inter> known_platforms)"
proof -
  define F where "F k = unique (map (\<lambda>r. cell_of r ''platform'')
            (filter (\<lambda>r. cell_of r ''product_id'' = k) (rows df)))" for k
  define K where "K = {k \<in> (\<lambda>r. cell_of r ''product_id'') ` set (rows df). k \<noteq> Null}"
  have g: "set groups = (\<lambda>k. (k, F k)) ` K"
    using platform_groups_D(2) [OF assms] by (simp add: F_def K_def)
  have "k \<in> set (cross_platform groups) \<longleftrightarrow>
        (\<exists>x. (k, x) \<in> set groups \<and> 2 \<le> card (set x \<inter> known_platforms))"
    unfolding cross_platform_def by force
  also have "\<dots> \<longleftrightarrow> k \<in> K \<and> 2 \<le> card (set (F k) \<inter> known_platforms)"
    unfolding g by auto
  finally show ?thesis
    by (auto simp: F_def set_unique K_def)
qed

lemma key_platforms_with_key:
  "set (map (\<lambda>r. cell_of r ''platform'')
     (filter (\<lambda>r. cell_of r ''product_id'' = k) (map (with_key txt) rs))) =
   set (map (\<lambda>r. cell_of r ''platform'') (filter (\<lambda>r. row_key txt r = k) rs))"
  by (induction rs) (auto simp: with_key_def cell_of_update_same cell_of_update_other)

lemma matcher_rows:
  assumes "filter_products_by_platforms txt df = Inr out"
  shows "rows out = map (with_key txt) (filter (kept txt df) (rows df))"
    and "columns out = (if ''product_id'' \<in> set (columns df) then columns df
                        else columns df @ [''product_id''])"
    and "''platform'' \<in> set (columns df)"
    and "set key_columns \<subseteq> set (columns df)"
proof -
  from assms obtain df1 groups where df1: "add_product_id txt df = Inr df1"
    and groups: "platform_groups df1 = Inr groups"
    and out: "out = select_isin (cross_platform groups) df1"
    by (auto simp: filter_products_by_platforms_def bind_def split: sum.splits)
  note d = add_product_id_D [OF df1]
  have k: "cell_of (with_key txt r) ''product_id'' = row_key txt r" for r
    by (simp add: with_key_def cell_of_update_same)
  have im: "(\<lambda>r. cell_of r ''product_id'') ` set (map (with_key txt) (rows df)) =
            row_key txt ` set (rows df)"
    by (simp add: image_image k)
  have cp: "c \<in> set (cross_platform groups) \<longleftrightarrow>
        c \<noteq> Null \<and> c \<in> row_key txt ` set (rows df) \<and>
        2 \<le> card (key_platforms txt df c \<inter> known_platforms)" for c
    unfolding cross_platform_iff [OF groups] d(1) key_platforms_with_key im key_platforms_def
    by (rule refl)
  have "(cell_of (with_key txt r) ''product_id'' \<in> set (cross_platform groups)) \<longleftrightarrow>
        kept txt df r" if "r \<in> set (rows df)" for r
    using that row_key_cases [of "txt" r] unfolding cp k kept_def
    by auto
  then have "filter (\<lambda>r. cell_of r ''product_id'' \<in> set (cross_platform groups))
               (map (with_key txt) (rows df)) =
             map (with_key txt) (filter (kept txt df) (rows df))"
    by (simp add: filter_map comp_def cong: filter_cong)
  with out d(1) show "rows out = map (with_key txt) (filter (kept txt df) (rows df))"
    by (simp add: select_isin_def)
  from out d(2) show "columns out = (if ''product_id'' \<in> set (columns df) then columns df
                        else columns df @ [''product_id''])"
    by (simp add: select_isin_def)
  from platform_groups_D(1) [OF groups] d(2) show "''platform'' \<in> set (columns df)"
    by (auto split: if_splits)
  from d(3) show "set key_columns \<subseteq> set (columns df)" .
qed


subsection \<open>Which rows the matcher keeps\<close>




lemma delete_with_key:
  "map (AList.delete ''product_id'') (map (with_key txt) rs) = map (AList.delete ''product_id'') rs"
  by (induction rs) (simp_all add: with_key_def delete_update_same)

lemma kept_iff:
  "kept txt df r \<longleftrightarrow>
     (\<exists>k. row_key txt r = Str k \<and> 2 \<le> card (key_platforms txt df (Str k) \<inter> known_platforms))"
  by (cases "row_key txt r") (auto simp: kept_def)







subsection \<open>What the matcher leaves unchanged\<close>

text \<open>
  C7 (as amended).  The output is the input rows that are kept, in their order; each one
  has its identity key in the column \<open>product_id\<close> and every other cell unchanged.  The
  column \<open>product_id\<close> is new in the output unless the input already had one, in which
  case its cells are overwritten.  Without that column the output rows are the kept
  input rows.
\<close>

theorem matcher_frame:
  assumes "filter_products_by_platforms txt df = Inr out"
  shows "rows out = map (with_key txt) (filter (kept txt df) (rows df)) \<and>
     columns out = (if ''product_id'' \<in> set (columns df) then columns df
                    else columns df @ [''product_id'']) \<and>
     (\<forall>r c. c \<noteq> ''product_id'' \<longrightarrow> cell_of (with_key txt r) c = cell_of r c) \<and>
     (\<forall>r. cell_of (with_key txt r) ''product_id'' = row_key txt r) \<and>
     map (AList.delete ''product_id'') (rows out) =
       map (AList.delete ''product_id'') (filter (kept txt df) (rows df))"
proof (intro conjI allI impI)
  show r: "rows out = map (with_key txt) (filter (kept txt df) (rows df))"
    by (rule matcher_rows(1) [OF assms])
  show "columns out = (if ''product_id'' \<in> set (columns df) then columns df
                    else columns df @ [''product_id''])"
    by (rule matcher_rows(2) [OF assms])
  show "cell_of (with_key txt r) c = cell_of r c" if "c \<noteq> ''product_id''" for r c
    using that by (simp add: with_key_def cell_of_update_other)
  show "cell_of (with_key txt r) ''product_id'' = row_key txt r" for r
    by (simp add: with_key_def cell_of_update_same)
  show "map (AList.delete ''product_id'') (rows out) =
       map (AList.delete ''product_id'') (filter (kept txt df) (rows df))"
    unfolding r by (rule delete_with_key)
qed


theorem matcher_frame_witness:
  "filter_products_by_platforms example_text example = Inr example_matched \<and>
   map (AList.delete ''product_id'') (filter (kept example_text example) (rows example)) =
     [dell_24_ebay, dell_24_flipkart] \<and>
   columns example_matched = columns example @ [''product_id'']"
proof -
  have e: "filter_products_by_platforms example_text example = Inr example_matched"
    by code_simp
  have d: "map (AList.delete ''product_id'') (rows example_matched) =
      [dell_24_ebay, dell_24_flipkart]"
    by code_simp
  have c: "''product_id'' \<notin> set (columns example)"
    by code_simp
  from matcher_frame [OF e] d c e show ?thesis by simp
qed

text \<open>
  C7 as stated fails: on the example table the output has the column \<open>product_id\<close>,
  which the input does not have, so its rows are not rows of the input.
\<close>

theorem matcher_adds_column:
  "filter_products_by_platforms example_text example = Inr example_matched \<and>
   ''product_id'' \<in> set (columns example_matched) \<and> ''product_id'' \<notin> set (columns example) \<and>
   \<not> set (rows example_matched) \<subseteq> set (rows example)"
  by code_simp

subsection \<open>A row without a brand\<close>

text \<open>
  C6 at a table where a monitor is listed without a brand on both platforms: the two rows
  get a missing key, not a text, and the matcher leaves them out although the other four
  fields agree and both platforms are present.
\<close>

theorem no_brand_no_key:
  "product_id_column example_text example_no_brand =
     Inr [Str ''Dell|24|16:9|144|1'', Str ''Dell|24|16:9|144|1'', Null, Null] \<and>
   filter_products_by_platforms example_text example_no_brand = Inr example_matched"
  by code_simp

section \<open>Properties of the daily aggregate\<close>



lemma price_value_D: "price_value c = Inr v \<Longrightarrow> is_number_or_null c"
  by (cases c) (auto simp: is_number_or_null_def)














section \<open>Properties of the chart file name\<close>

lemma is_word_underscore: "is_word CHR ''_''"
  by (simp add: is_word_def code_point_def)

lemma re_sub_nonword_clean: "\<forall>c \<in> set (re_sub_nonword s). is_word c \<or> is_space c"
  by (auto simp: re_sub_nonword_def is_word_underscore)

text \<open>
  C3 (as amended).  The file name is \<open>Monitor_\<close>, the sanitised key, \<open>.png\<close>.  The
  sanitised key has the length of the key; position by position, the separator and every
  other character that is neither a word character nor whitespace has become an
  underscore (it is replaced, not removed), and every other character is kept.  So the
  sanitised key holds only word characters and whitespace, and the key
  \<open>Dell|24|16:9|144|1\<close> gives \<open>Monitor_Dell_24_16_9_144_1.png\<close>.
\<close>

theorem file_name_replaces:
  "file_name k = ''Monitor_'' @ sanitized_title k @ ''.png'' \<and>
   length (sanitized_title k) = length k \<and>
   (\<forall>i < length k. sanitized_title k ! i =
      (if k ! i \<noteq> CHR ''|'' \<and> (is_word (k ! i) \<or> is_space (k ! i)) then k ! i else CHR ''_'')) \<and>
   (\<forall>c \<in> set (sanitized_title k). is_word c \<or> is_space c) \<and>
   file_name ''Dell|24|16:9|144|1'' = ''Monitor_Dell_24_16_9_144_1.png''"
proof -
  have len: "length (sanitized_title k) = length k"
    by (simp add: sanitized_title_def re_sub_nonword_def replace_char_def)
  have pos: "\<forall>i < length k. sanitized_title k ! i =
      (if k ! i \<noteq> CHR ''|'' \<and> (is_word (k ! i) \<or> is_space (k ! i)) then k ! i else CHR ''_'')"
    by (simp add: sanitized_title_def re_sub_nonword_def replace_char_def is_word_underscore)
  have clean: "\<forall>c \<in> set (sanitized_title k). is_word c \<or> is_space c"
    unfolding sanitized_title_def by (rule re_sub_nonword_clean)
  have ex: "file_name ''Dell|24|16:9|144|1'' = ''Monitor_Dell_24_16_9_144_1.png''"
    by (simp add: file_name_def sanitized_title_def re_sub_nonword_def replace_char_def
        is_word_def is_space_def code_point_def)
  from len pos clean ex show ?thesis
    by (simp add: file_name_def)
qed

theorem file_name_replaces_witness:
  "1 < length ''a:b|c'' \<and> ''a:b|c'' ! 1 = CHR '':'' \<and>
   sanitized_title ''a:b|c'' ! 1 = CHR ''_'' \<and>
   CHR ''a'' \<in> set (sanitized_title ''a:b|c'') \<and> is_word CHR ''a'' \<and>
   file_name ''a:b|c'' = ''Monitor_a_b_c.png''"
proof -
  note inst = file_name_replaces [of "''a:b|c''"]
  have l: "1 < length ''a:b|c''" by simp
  from inst l have "sanitized_title ''a:b|c'' ! 1 =
      (if ''a:b|c'' ! 1 \<noteq> CHR ''|'' \<and> (is_word (''a:b|c'' ! 1) \<or> is_space (''a:b|c'' ! 1))
       then ''a:b|c'' ! 1 else CHR ''_'')"
    by blast
  then have p: "sanitized_title ''a:b|c'' ! 1 = CHR ''_''"
    by (simp add: is_word_def is_space_def code_point_def)
  have m: "CHR ''a'' \<in> set (sanitized_title ''a:b|c'')"
    by (simp add: sanitized_title_def re_sub_nonword_def replace_char_def
        is_word_def is_space_def code_point_def)
  with inst have "is_word CHR ''a'' \<or> is_space CHR ''a''"
    by blast
  then have w: "is_word CHR ''a''"
    by (simp add: is_space_def code_point_def)
  from inst have f: "file_name ''a:b|c'' = ''Monitor_'' @ sanitized_title ''a:b|c'' @ ''.png''"
    by blast
  have "sanitized_title ''a:b|c'' = ''a_b_c''"
    by (simp add: sanitized_title_def re_sub_nonword_def replace_char_def
        is_word_def is_space_def code_point_def)
  with f l p m w show ?thesis by simp
qed

text \<open>
  C3 as stated fails: removing the colon of \<open>16:9\<close> would give \<open>169\<close>, while the program
  writes \<open>16_9\<close>.
\<close>

theorem file_name_not_removal:
  "file_name ''Dell|24|16:9|144|1'' \<noteq> spec_file_name ''Dell|24|16:9|144|1''"
  by (simp add: file_name_def spec_file_name_def sanitized_title_def re_sub_nonword_def
      replace_char_def is_word_def is_space_def code_point_def)

section \<open>Properties of the loader and of the main block\<close>

subsection \<open>Files and the table\<close>

lemma load_files_append:
  "load_files g lib p (xs @ ys) =
     (fst (load_files g lib p xs) @ fst (load_files g lib p ys),
      snd (load_files g lib p xs) @ snd (load_files g lib p ys))"
  by (induction xs) (auto simp: Let_def split: prod.splits option.splits)

lemma load_files_Cons:
  "load_files g lib p (x # xs) =
     (fst (load_file g lib p x) @ fst (load_files g lib p xs),
      (case snd (load_file g lib p x) of None \<Rightarrow> [] | Some df \<Rightarrow> [df]) @
        snd (load_files g lib p xs))"
  by (auto simp: Let_def split: prod.splits option.splits)

lemma load_files_none:
  "\<forall>x \<in> set xs. snd (load_file g lib p x) = None \<Longrightarrow> snd (load_files g lib p xs) = []"
  by (induction xs) (auto simp: Let_def split: prod.splits option.splits)

lemma load_file_missing:
  assumes "content file = Inr df"
    and "\<not> required_columns \<subseteq> set (map normalize_col (columns df))"
  shows "load_file g lib p file =
     ([MissingColumns (path file) (required_columns - set (map normalize_col (columns df)))], None)"
  using assms by (auto simp: load_file_def Let_def rename_columns_def)

lemma normalize_fields_unbound:
  assumes "normalize_brand g = None" and "''brand'' \<in> set (columns df)"
  shows "normalize_fields g lib df = Inl (NameError ''normalize_brand'')"
  using assms
  by (simp add: normalize_fields_def get_column_def apply_global_def bind_Inr bind_Inl)

lemma load_file_unbound:
  assumes "normalize_brand g = None"
    and "content file = Inr df"
    and "required_columns \<subseteq> set (map normalize_col (columns df))"
  shows "load_file g lib p file = ([ErrorLoading (path file) (NameError ''normalize_brand'')], None)"
proof -
  let ?df = "rename_columns normalize_col df"
  from assms(3) have b: "''brand'' \<in> set (columns ?df)"
    by (auto simp: required_columns_def rename_columns_def)
  then have "''brand'' \<in> set (columns
      (set_column ''platform'' (replicate (length (rows ?df)) (Str p)) ?df))"
    by (simp add: set_column_def)
  from normalize_fields_unbound [OF assms(1) this, of lib] assms(2,3)
  show ?thesis
    by (auto simp: load_file_def Let_def rename_columns_def)
qed

lemma load_file_unbound_none:
  assumes "normalize_brand g = None"
  shows "snd (load_file g lib p file) = None"
proof (cases "content file")
  case (Inl e)
  then show ?thesis by (simp add: load_file_def)
next
  case (Inr df)
  show ?thesis
  proof (cases "required_columns \<subseteq> set (map normalize_col (columns df))")
    case True
    from load_file_unbound [OF assms Inr True] show ?thesis by simp
  next
    case False
    from load_file_missing [OF Inr False] show ?thesis by simp
  qed
qed

lemma load_platform_unbound:
  assumes "normalize_brand g = None"
  shows "snd (load_platform g lib t p) = []"
  using load_files_none [of _ g lib p] load_file_unbound_none [OF assms]
  by (auto simp: load_platform_def split: option.splits)

lemma load_cleaned_data_alt:
  "load_cleaned_data g lib t =
     (fst (load_platform g lib t ''ebay'') @ fst (load_platform g lib t ''flipkart''),
      if snd (load_platform g lib t ''ebay'') @ snd (load_platform g lib t ''flipkart'') = []
      then empty_frame
      else concat_frames
        (snd (load_platform g lib t ''ebay'') @ snd (load_platform g lib t ''flipkart'')))"
  by (simp add: load_cleaned_data_def Let_def split: prod.splits)

lemma load_cleaned_data_unbound:
  assumes "normalize_brand g = None"
  shows "snd (load_cleaned_data g lib t) = empty_frame"
  by (simp add: load_cleaned_data_alt load_platform_unbound [OF assms])

lemma main_empty:
  assumes "frame_empty (snd (load_cleaned_data g lib t))"
  shows "main g lib t = \<lparr>exit_status = 1,
     logged = LoadingData # fst (load_cleaned_data g lib t) @ [NoCleanedData], charts = []\<rparr>"
  using assms by (auto simp: main_def Let_def split: prod.splits)

subsection \<open>What the loader logs\<close>

lemma load_file_entries: "\<forall>x \<in> set (fst (load_file g lib p file)). loader_entry x"
  by (auto simp: load_file_def Let_def loader_entry_def split: sum.splits)

lemma load_files_entries: "\<forall>x \<in> set (fst (load_files g lib p files)). loader_entry x"
proof (induction files)
  case Nil
  then show ?case by simp
next
  case (Cons f fs)
  with load_file_entries [of g lib p f] show ?case
    unfolding load_files_Cons by auto
qed

lemma load_platform_entries: "\<forall>x \<in> set (fst (load_platform g lib t p)). loader_entry x"
  using load_files_entries [of g lib p]
  by (auto simp: load_platform_def loader_entry_def split: option.splits)

lemma load_cleaned_data_entries: "\<forall>x \<in> set (fst (load_cleaned_data g lib t)). loader_entry x"
  using load_platform_entries [of g lib t]
  by (auto simp: load_cleaned_data_alt)

subsection \<open>The conversion of the screen size\<close>

lemma round_half_even_nearest: "\<bar>real_of_int (round_half_even x) - x\<bar> \<le> 1 / 2"
proof -
  have "real_of_int \<lfloor>x\<rfloor> \<le> x" and "x < real_of_int \<lfloor>x\<rfloor> + 1"
    by linarith+
  then show ?thesis
    by (auto simp: round_half_even_def Let_def)
qed

lemma round_half_even_of_int: "round_half_even (of_int i) = i"
  by (simp add: round_half_even_def)

lemma int_to_float64_small:
  assumes "\<bar>i\<bar> \<le> 2 ^ 53"
  shows "int_to_float64 i = of_int i"
proof (cases "\<bar>i\<bar> < 2 ^ 53")
  case True
  then have "bitlen \<bar>i\<bar> \<le> 53"
    by (simp add: bitlen_le_iff_power)
  then show ?thesis
    by (simp add: int_to_float64_def Let_def)
next
  case False
  with assms have "i = 9007199254740992 \<or> i = - 9007199254740992"
    by auto
  moreover have "int_to_float64 9007199254740992 = 9007199254740992"
    by code_simp
  moreover have "int_to_float64 (- 9007199254740992) = - 9007199254740992"
    by code_simp
  ultimately show ?thesis by auto
qed

lemma sequence_length: "sequence ms = Inr xs \<Longrightarrow> length xs = length ms"
  by (induction ms arbitrary: xs) (auto simp: bind_def split: sum.splits)

lemma apply_global_length: "apply_global n f xs = Inr ys \<Longrightarrow> length ys = length xs"
  by (auto simp: apply_global_def split: option.splits dest: sequence_length)

lemma column_set_column_other:
  assumes "length vs = length (rows df)" and "c' \<noteq> c"
  shows "map (\<lambda>r. cell_of r c') (rows (set_column c vs df)) = map (\<lambda>r. cell_of r c') (rows df)"
proof -
  have "map (\<lambda>r. cell_of r c') (map (\<lambda>(r, v). AList.update c v r) (zip (rows df) vs)) =
        map (\<lambda>r. cell_of r c') (map fst (zip (rows df) vs))"
    using assms(2) by (auto simp: cell_of_update_other)
  with assms(1) show ?thesis
    by (simp add: set_column_def del: map_map)
qed

lemma length_rows_set_column:
  "length vs = length (rows df) \<Longrightarrow> length (rows (set_column c vs df)) = length (rows df)"
  by (simp add: set_column_def)

lemma normalize_fields_sizes:
  assumes "normalize_fields g lib df = Inr out"
  shows "\<forall>r \<in> set (rows df). \<exists>v. screen_size_conv (float_text lib) (cell_of r ''screen_size_in'') = Inr v"
proof -
  from assms obtain b where b: "apply_global ''normalize_brand'' (normalize_brand g)
        (map (\<lambda>r. cell_of r ''brand'') (rows df)) = Inr b"
    by (auto simp: normalize_fields_def get_column_def bind_def split: if_splits sum.splits)
  define df1 where "df1 = set_column ''brand'' b df"
  from apply_global_length [OF b] have lb: "length b = length (rows df)" by simp
  from assms b obtain a where a: "apply_global ''normalize_aspect_ratio'' (normalize_aspect_ratio g)
        (map (\<lambda>r. cell_of r ''aspect_ratio'') (rows df1)) = Inr a"
    by (auto simp: normalize_fields_def get_column_def bind_def Let_def df1_def
        split: if_splits sum.splits)
  define df2 where "df2 = set_column ''aspect_ratio'' a df1"
  from apply_global_length [OF a] length_rows_set_column [OF lb]
  have la: "length a = length (rows df1)" by (simp add: df1_def)
  from assms b a obtain i where i: "sequence (map (screen_size_conv (float_text lib))
        (map (\<lambda>r. cell_of r ''screen_size_in'') (rows df2))) = Inr i"
    by (auto simp: normalize_fields_def get_column_def bind_def Let_def df1_def df2_def
        split: if_splits sum.splits)
  have "map (\<lambda>r. cell_of r ''screen_size_in'') (rows df2) =
        map (\<lambda>r. cell_of r ''screen_size_in'') (rows df)"
    unfolding df2_def df1_def
    using column_set_column_other [OF la [unfolded df1_def], of "''screen_size_in''" "''aspect_ratio''"]
      column_set_column_other [OF lb, of "''screen_size_in''" "''brand''"]
    by simp
  with i have "sequence (map (\<lambda>r. screen_size_conv (float_text lib) (cell_of r ''screen_size_in''))
        (rows df)) = Inr i"
    by (simp add: comp_def)
  from sequence_map_Inr_D [OF this] show ?thesis .
qed

lemma load_file_sizes:
  assumes "content file = Inr df"
    and "r \<in> set (rows (rename_columns normalize_col df))"
    and "screen_size_conv (float_text lib) (cell_of r ''screen_size_in'') = Inl e"
  shows "snd (load_file g lib p file) = None"
proof -
  let ?df = "rename_columns normalize_col df"
  let ?dfp = "set_column ''platform'' (replicate (length (rows ?df)) (Str p)) ?df"
  have "normalize_fields g lib ?dfp \<noteq> Inr out" for out
  proof
    assume "normalize_fields g lib ?dfp = Inr out"
    from normalize_fields_sizes [OF this]
    have "\<forall>v \<in> set (map (\<lambda>r. cell_of r ''screen_size_in'') (rows ?dfp)).
            \<exists>w. screen_size_conv (float_text lib) v = Inr w"
      by simp
    moreover have "map (\<lambda>r. cell_of r ''screen_size_in'') (rows ?dfp) =
        map (\<lambda>r. cell_of r ''screen_size_in'') (rows ?df)"
      by (rule column_set_column_other) simp_all
    ultimately have "\<exists>w. screen_size_conv (float_text lib) (cell_of r ''screen_size_in'') = Inr w"
      using assms(2) by auto
    with assms(3) show False by simp
  qed
  with assms(1) show ?thesis
    by (auto simp: load_file_def Let_def split: sum.splits)
qed

text \<open>
  C5 (as amended).  The conversion maps a missing value to a missing value.  An integer
  becomes the nearest integer of its float, which is the integer itself up to
  \<open>2 ^ 53\<close> in magnitude; a finite float becomes a nearest integer (at most one half away,
  a tie going to the even one); a text becomes what the float that \<open>float\<close> reads from it
  becomes.  An infinite float, and a text that \<open>float\<close> reads as one, raises
  \<open>OverflowError\<close>; a text that \<open>float\<close> rejects or reads as \<open>nan\<close> raises \<open>ValueError\<close>;
  a date raises \<open>TypeError\<close>.  A file that holds a value for which the conversion
  raises in the column \<open>screen_size_in\<close> is skipped.
\<close>

theorem screen_size_conversion:
  "screen_size_conv ft Null = Inr Null \<and>
   screen_size_conv ft (Int64 i) = Inr (Int64 (round_half_even (int_to_float64 i))) \<and>
   (\<bar>i\<bar> \<le> 2 ^ 53 \<longrightarrow> screen_size_conv ft (Int64 i) = Inr (Int64 i)) \<and>
   screen_size_conv ft (Float64 x) = Inr (Int64 (round_half_even x)) \<and>
   \<bar>real_of_int (round_half_even x) - x\<bar> \<le> 1 / 2 \<and>
   screen_size_conv ft (Inf64 b) = Inl OverflowError \<and>
   screen_size_conv ft (Date d) = Inl TypeError \<and>
   (\<forall>s y. ft s = Some (Finite y) \<longrightarrow>
      screen_size_conv ft (Str s) = Inr (Int64 (round_half_even y))) \<and>
   (\<forall>s c. ft s = Some (Infinite c) \<longrightarrow> screen_size_conv ft (Str s) = Inl OverflowError) \<and>
   (\<forall>s. ft s = Some NaN \<longrightarrow> screen_size_conv ft (Str s) = Inl ValueError) \<and>
   (\<forall>s. ft s = None \<longrightarrow> screen_size_conv ft (Str s) = Inl ValueError) \<and>
   (\<forall>g lib p file df r e. float_text lib = ft \<and> content file = Inr df \<and>
       r \<in> set (rows (rename_columns normalize_col df)) \<and>
       screen_size_conv ft (cell_of r ''screen_size_in'') = Inl e \<longrightarrow>
       snd (load_file g lib p file) = None)"
proof (intro conjI allI impI)
  show "screen_size_conv ft Null = Inr Null"
    by (simp add: screen_size_conv_def)
  show "screen_size_conv ft (Int64 i) = Inr (Int64 (round_half_even (int_to_float64 i)))"
    by (simp add: screen_size_conv_def bind_Inr)
  show "screen_size_conv ft (Int64 i) = Inr (Int64 i)" if "\<bar>i\<bar> \<le> 2 ^ 53"
    using that
    by (simp add: screen_size_conv_def bind_Inr int_to_float64_small round_half_even_of_int)
  show "screen_size_conv ft (Float64 x) = Inr (Int64 (round_half_even x))"
    by (simp add: screen_size_conv_def bind_Inr)
  show "\<bar>real_of_int (round_half_even x) - x\<bar> \<le> 1 / 2"
    by (rule round_half_even_nearest)
  show "screen_size_conv ft (Inf64 b) = Inl OverflowError"
    by (simp add: screen_size_conv_def bind_Inr bind_Inl)
  show "screen_size_conv ft (Date d) = Inl TypeError"
    by (simp add: screen_size_conv_def bind_Inl)
  show "screen_size_conv ft (Str s) = Inr (Int64 (round_half_even y))"
    if "ft s = Some (Finite y)" for s y
    using that by (simp add: screen_size_conv_def bind_Inr)
  show "screen_size_conv ft (Str s) = Inl OverflowError" if "ft s = Some (Infinite c)" for s c
    using that by (simp add: screen_size_conv_def bind_Inr bind_Inl)
  show "screen_size_conv ft (Str s) = Inl ValueError" if "ft s = Some NaN" for s
    using that by (simp add: screen_size_conv_def bind_Inr bind_Inl)
  show "screen_size_conv ft (Str s) = Inl ValueError" if "ft s = None" for s
    using that by (simp add: screen_size_conv_def bind_Inl)
  show "snd (load_file g lib p fl) = None"
    if "float_text lib = ft \<and> content fl = Inr df \<and>
       r \<in> set (rows (rename_columns normalize_col df)) \<and>
       screen_size_conv ft (cell_of r ''screen_size_in'') = Inl e" for g lib p fl df r e
  proof -
    from that
    have "screen_size_conv (float_text lib) (cell_of r ''screen_size_in'') = Inl e"
      by simp
    from load_file_sizes [OF _ _ this] that show ?thesis by blast
  qed
qed

theorem screen_size_conversion_witness:
  "\<bar>24 :: int\<bar> \<le> 2 ^ 53 \<and>
   screen_size_conv example_float_text (Int64 24) = Inr (Int64 24) \<and>
   example_float_text ''27'' = Some (Finite 27) \<and>
   screen_size_conv example_float_text (Str ''27'') = Inr (Int64 27) \<and>
   example_float_text ''1e400'' = Some (Infinite True) \<and>
   screen_size_conv example_float_text (Str ''1e400'') = Inl OverflowError \<and>
   example_float_text ''abc'' = None \<and>
   screen_size_conv example_float_text (Str ''abc'') = Inl ValueError \<and>
   float_text example_library = example_float_text \<and>
   content abc_file = Inr \<lparr>columns = csv_columns,
       rows = [csv_row (Str ''Dell'') (Str ''abc'') (Int64 200)]\<rparr> \<and>
   cell_of (hd (rows (rename_columns normalize_col \<lparr>columns = csv_columns,
       rows = [csv_row (Str ''Dell'') (Str ''abc'') (Int64 200)]\<rparr>))) ''screen_size_in'' =
     Str ''abc'' \<and>
   snd (load_file passthrough_globals example_library ''ebay'' abc_file) = None \<and>
   snd (load_file notebook_globals example_library ''ebay'' abc_file) = None"
proof -
  let ?df = "\<lparr>columns = csv_columns, rows = [csv_row (Str ''Dell'') (Str ''abc'') (Int64 200)]\<rparr>"
  let ?r = "hd (rows (rename_columns normalize_col ?df))"
  have d1: "example_float_text ''27'' = Some (Finite 27)" by code_simp
  have d2: "example_float_text ''abc'' = None" by code_simp
  have d3: "example_float_text ''1e400'' = Some (Infinite True)" by code_simp
  have s24: "\<bar>24 :: int\<bar> \<le> 2 ^ 53" by simp
  have l: "float_text example_library = example_float_text" by (simp add: example_library_def)
  have c: "content abc_file = Inr ?df" by (simp add: abc_file_def csv_def)
  have m: "?r \<in> set (rows (rename_columns normalize_col ?df))"
    by (simp add: rename_columns_def)
  have s: "cell_of ?r ''screen_size_in'' = Str ''abc''" by code_simp
  have r27: "round_half_even 27 = 27" using round_half_even_of_int [of 27] by simp
  note inst = screen_size_conversion [of example_float_text 24 0 True 0]
  from inst s24 have i24: "screen_size_conv example_float_text (Int64 24) = Inr (Int64 24)"
    by blast
  from inst d1
  have "screen_size_conv example_float_text (Str ''27'') = Inr (Int64 (round_half_even 27))"
    by blast
  then have a: "screen_size_conv example_float_text (Str ''27'') = Inr (Int64 27)"
    by (simp add: r27)
  from inst d3 have o: "screen_size_conv example_float_text (Str ''1e400'') = Inl OverflowError"
    by blast
  from inst d2 have b: "screen_size_conv example_float_text (Str ''abc'') = Inl ValueError"
    by blast
  from b s have bad: "screen_size_conv example_float_text (cell_of ?r ''screen_size_in'') =
      Inl ValueError"
    by simp
  from inst l c m bad
  have f1: "snd (load_file passthrough_globals example_library ''ebay'' abc_file) = None"
    by blast
  from inst l c m bad
  have f2: "snd (load_file notebook_globals example_library ''ebay'' abc_file) = None"
    by blast
  from s24 i24 d1 a d3 o d2 b l c s f1 f2 show ?thesis by simp
qed

text \<open>
  C5 as stated fails: for the text \<open>abc\<close> the conversion raises \<open>ValueError\<close> and for an
  infinite float \<open>OverflowError\<close>, where the claim has a null marker and a nearest
  integer; and the integer 9007199254740993 becomes 9007199254740992.
\<close>

theorem text_screen_size_raises:
  "screen_size_conv (float_text example_library) (Str ''abc'') = Inl ValueError \<and>
   screen_size_conv (float_text example_library) (Inf64 True) = Inl OverflowError \<and>
   screen_size_conv (float_text example_library) (Int64 9007199254740993) =
     Inr (Int64 9007199254740992)"
  by code_simp

subsection \<open>A file that lacks a required column\<close>

text \<open>
  C9.  A file whose normalised column names miss a required column makes the loop body
  log one warning, with the missing columns, and append nothing; the files before and
  after it are loaded as without it, and the unified table is the one that the loader
  returns when that file is not in the directory.
\<close>

theorem missing_column_file_skipped:
  assumes "content file = Inr df"
    and "\<not> required_columns \<subseteq> set (map normalize_col (columns df))"
  shows "load_file g lib p file =
       ([MissingColumns (path file)
           (required_columns - set (map normalize_col (columns df)))], None) \<and>
     level_of (MissingColumns (path file)
           (required_columns - set (map normalize_col (columns df)))) = WARNING \<and>
     (\<forall>before after. load_files g lib p (before @ file # after) =
        (fst (load_files g lib p before) @
           [MissingColumns (path file)
              (required_columns - set (map normalize_col (columns df)))] @
           fst (load_files g lib p after),
         snd (load_files g lib p (before @ after)))) \<and>
     (\<forall>t before after. t p = Some (before @ file # after) \<longrightarrow>
        snd (load_cleaned_data g lib t) =
        snd (load_cleaned_data g lib (t(p := Some (before @ after)))))"
proof -
  note m = load_file_missing [OF assms, of g lib p]
  have f: "load_files g lib p (before @ file # after) =
        (fst (load_files g lib p before) @
           [MissingColumns (path file)
              (required_columns - set (map normalize_col (columns df)))] @
           fst (load_files g lib p after),
         snd (load_files g lib p (before @ after)))" for before after
    by (simp add: load_files_append [of g lib p before] m split: prod.splits)
  have "snd (load_cleaned_data g lib t) =
        snd (load_cleaned_data g lib (t(p := Some (before @ after))))"
    if t: "t p = Some (before @ file # after)" for t before after
  proof -
    have "snd (load_platform g lib t q) =
          snd (load_platform g lib (t(p := Some (before @ after))) q)" for q
      using t f [of before after] by (cases "q = p") (simp_all add: load_platform_def)
    then show ?thesis
      unfolding load_cleaned_data_alt by simp
  qed
  with m f show ?thesis by simp
qed

theorem missing_column_file_skipped_witness:
  "content no_brand_column_file = Inr \<lparr>columns = remove1 '' Brand '' csv_columns,
       rows = [AList.delete '' Brand '' (csv_row Null (Int64 24) (Int64 200))]\<rparr> \<and>
   \<not> required_columns \<subseteq> set (map normalize_col (remove1 '' Brand '' csv_columns)) \<and>
   load_file passthrough_globals example_library ''ebay'' no_brand_column_file =
     ([MissingColumns ''nobrand.csv'' {''brand''}], None) \<and>
   snd (load_cleaned_data passthrough_globals example_library
          (only_ebay ([dell_file] @ no_brand_column_file # [dell_file]))) =
   snd (load_cleaned_data passthrough_globals example_library
          ((only_ebay ([dell_file] @ no_brand_column_file # [dell_file]))
             (''ebay'' := Some ([dell_file] @ [dell_file])))) \<and>
   length (rows (snd (load_cleaned_data passthrough_globals example_library
          (only_ebay ([dell_file] @ no_brand_column_file # [dell_file]))))) = 2"
proof -
  have c: "content no_brand_column_file = Inr \<lparr>columns = remove1 '' Brand '' csv_columns,
       rows = [AList.delete '' Brand '' (csv_row Null (Int64 24) (Int64 200))]\<rparr>"
    by (simp add: no_brand_column_file_def)
  have r: "\<not> required_columns \<subseteq> set (map normalize_col (columns \<lparr>columns = remove1 '' Brand '' csv_columns,
       rows = [AList.delete '' Brand '' (csv_row Null (Int64 24) (Int64 200))]\<rparr>))"
    by code_simp
  have "required_columns - set (map normalize_col (remove1 '' Brand '' csv_columns)) = {''brand''}"
    by code_simp
  then have s: "required_columns - normalize_col ` set (remove1 '' Brand '' csv_columns) = {''brand''}"
    by simp
  have p: "path no_brand_column_file = ''nobrand.csv''"
    by (simp add: no_brand_column_file_def)
  have t: "only_ebay ([dell_file] @ no_brand_column_file # [dell_file]) ''ebay'' =
      Some ([dell_file] @ no_brand_column_file # [dell_file])"
    by (simp add: only_ebay_def)
  have n: "length (rows (snd (load_cleaned_data passthrough_globals example_library
          (only_ebay ([dell_file] @ no_brand_column_file # [dell_file]))))) = 2"
    by code_simp
  note inst = missing_column_file_skipped [OF c r, of passthrough_globals example_library "''ebay''"]
  from inst have "load_file passthrough_globals example_library ''ebay'' no_brand_column_file =
     ([MissingColumns ''nobrand.csv'' {''brand''}], None)"
    by (simp add: s p)
  moreover from inst t have "snd (load_cleaned_data passthrough_globals example_library
          (only_ebay ([dell_file] @ no_brand_column_file # [dell_file]))) =
   snd (load_cleaned_data passthrough_globals example_library
          ((only_ebay ([dell_file] @ no_brand_column_file # [dell_file]))
             (''ebay'' := Some ([dell_file] @ [dell_file]))))"
    by blast
  ultimately show ?thesis using c r n by simp
qed

subsection \<open>The notebook as it is\<close>

text \<open>
  C2.  With the globals of the notebook, in which \<open>normalize_brand\<close> is not bound, every
  file that passes the check of the required columns ends in the handler of its \<open>try\<close>
  with a \<open>NameError\<close> and is skipped; no file is appended, so the loader returns the
  empty table for every directory tree, and the main block logs that no data was found,
  ends with status 1 and writes no chart.
\<close>

theorem notebook_loads_nothing:
  "(\<forall>p file df. content file = Inr df \<and>
       required_columns \<subseteq> set (map normalize_col (columns df)) \<longrightarrow>
       load_file notebook_globals lib p file =
         ([ErrorLoading (path file) (NameError ''normalize_brand'')], None)) \<and>
   (\<forall>p file. snd (load_file notebook_globals lib p file) = None) \<and>
   snd (load_cleaned_data notebook_globals lib t) = empty_frame \<and>
   main notebook_globals lib t =
     \<lparr>exit_status = 1,
      logged = LoadingData # fst (load_cleaned_data notebook_globals lib t) @ [NoCleanedData],
      charts = []\<rparr>"
proof -
  have n: "normalize_brand notebook_globals = None"
    by (simp add: notebook_globals_def)
  have e: "frame_empty (snd (load_cleaned_data notebook_globals lib t))"
    by (simp add: load_cleaned_data_unbound [OF n] empty_frame_def frame_empty_def)
  show ?thesis
    using load_file_unbound [OF n, of _ _ lib] load_file_unbound_none [OF n, of lib]
      load_cleaned_data_unbound [OF n, of lib t] main_empty [OF e]
    by auto
qed

theorem notebook_loads_nothing_witness:
  "content dell_file = Inr \<lparr>columns = csv_columns,
       rows = [csv_row (Str ''Dell'') (Int64 24) (Int64 200)]\<rparr> \<and>
   required_columns \<subseteq> set (map normalize_col csv_columns) \<and>
   load_file notebook_globals example_library ''ebay'' dell_file =
     ([ErrorLoading ''dell.csv'' (NameError ''normalize_brand'')], None) \<and>
   main notebook_globals example_library (both_platforms [dell_file] [dell_file]) =
     \<lparr>exit_status = 1,
      logged = [LoadingData, ErrorLoading ''dell.csv'' (NameError ''normalize_brand''),
                ErrorLoading ''dell.csv'' (NameError ''normalize_brand''), NoCleanedData],
      charts = []\<rparr>"
proof -
  have c: "content dell_file = Inr \<lparr>columns = csv_columns,
       rows = [csv_row (Str ''Dell'') (Int64 24) (Int64 200)]\<rparr>"
    by (simp add: dell_file_def csv_def)
  have r: "required_columns \<subseteq> set (map normalize_col csv_columns)"
    by code_simp
  have p: "path dell_file = ''dell.csv''"
    by (simp add: dell_file_def csv_def)
  have l: "fst (load_cleaned_data notebook_globals example_library
       (both_platforms [dell_file] [dell_file])) =
     [ErrorLoading ''dell.csv'' (NameError ''normalize_brand''),
      ErrorLoading ''dell.csv'' (NameError ''normalize_brand'')]"
    by code_simp
  from notebook_loads_nothing [of example_library "both_platforms [dell_file] [dell_file]"]
  have a: "\<forall>p file df. content file = Inr df \<and>
       required_columns \<subseteq> set (map normalize_col (columns df)) \<longrightarrow>
       load_file notebook_globals example_library p file =
         ([ErrorLoading (path file) (NameError ''normalize_brand'')], None)"
    and b: "main notebook_globals example_library (both_platforms [dell_file] [dell_file]) =
     \<lparr>exit_status = 1,
      logged = LoadingData # fst (load_cleaned_data notebook_globals example_library
         (both_platforms [dell_file] [dell_file])) @ [NoCleanedData],
      charts = []\<rparr>"
    by blast+
  from a c r have "load_file notebook_globals example_library ''ebay'' dell_file =
     ([ErrorLoading (path dell_file) (NameError ''normalize_brand'')], None)"
    by simp
  with c r b show ?thesis by (simp add: p l)
qed

subsection \<open>An empty table\<close>

text \<open>
  C10.  Whenever the loader returns an empty table, the main block logs the error that no
  cleaned data was found after the entries of the loader, ends with status 1 and writes
  no chart; the handler for exceptions is not entered, so no critical error is logged.
\<close>

theorem empty_table_exit_one:
  assumes "frame_empty (snd (load_cleaned_data g lib t))"
  shows "main g lib t =
      \<lparr>exit_status = 1,
       logged = LoadingData # fst (load_cleaned_data g lib t) @ [NoCleanedData],
       charts = []\<rparr> \<and>
     level_of NoCleanedData = ERROR \<and>
     (\<forall>e. CriticalError e \<notin> set (logged (main g lib t)))"
proof -
  have "\<not> loader_entry (CriticalError e)" for e
    by (simp add: loader_entry_def)
  with load_cleaned_data_entries [of g lib t]
  have "CriticalError e \<notin> set (fst (load_cleaned_data g lib t))" for e by blast
  with main_empty [OF assms] show ?thesis by simp
qed

theorem empty_table_exit_one_witness:
  "frame_empty (snd (load_cleaned_data passthrough_globals example_library no_directories)) \<and>
   main passthrough_globals example_library no_directories =
      \<lparr>exit_status = 1,
       logged = [LoadingData, MissingDirectory ''ebay'', MissingDirectory ''flipkart'',
                 NoCleanedData],
       charts = []\<rparr>"
proof -
  have e: "frame_empty (snd (load_cleaned_data passthrough_globals example_library no_directories))"
    by code_simp
  have l: "fst (load_cleaned_data passthrough_globals example_library no_directories) =
      [MissingDirectory ''ebay'', MissingDirectory ''flipkart'']"
    by code_simp
  from empty_table_exit_one [OF e] e show ?thesis by (simp add: l)
qed

subsection \<open>Exceptions in the pipeline\<close>






end
